theory Spec2Isabelle
  imports Main "HOL-Library.Word"
begin

unbundle bit_operations_syntax

section \<open>Values, exceptions and results\<close>

text \<open>
  The program is \<^verbatim>\<open>src/server/disease_detection.py\<close>. A Python \<^verbatim>\<open>str\<close> is modelled
  as a \<^typ>\<open>string\<close> whose characters are the code points below 256; a \<^verbatim>\<open>bytes\<close>
  object is a list of 8-bit words; a Python \<^verbatim>\<open>int\<close> is an \<^typ>\<open>int\<close>.

  An exception is a value: its class and the text that \<^verbatim>\<open>str(e)\<close> gives.
  \<open>BinasciiError\<close> is \<^verbatim>\<open>binascii.Error\<close>; \<open>ImageError\<close> stands for whatever the
  imaging steps raise (Pillow's \<^verbatim>\<open>UnidentifiedImageError\<close>, an \<^verbatim>\<open>OSError\<close>, ...). All
  of them derive from \<^verbatim>\<open>Exception\<close>, so the handler of line 100 catches each.
\<close>

type_synonym byte = "8 word"

datatype exn =
    BinasciiError string
  | ValueError string
  | IndexError string
  | KeyError string
  | ImageError string

fun str_exn :: "exn \<Rightarrow> string" where
  "str_exn (BinasciiError m) = m"
| "str_exn (ValueError m) = m"
| "str_exn (IndexError m) = m"
| "str_exn (KeyError m) = m"
| "str_exn (ImageError m) = m"

text \<open>The values stored in the result dictionary, and the dictionary itself in
  insertion order (the order \<^verbatim>\<open>json.dumps\<close> prints).\<close>

datatype jvalue = JBool bool | JInt int | JStr string

type_synonym pydict = "(string \<times> jvalue) list"

section \<open>The Python operations the program calls\<close>

subsection \<open>Indexing and dictionaries\<close>

definition list_getitem :: "'a list \<Rightarrow> int \<Rightarrow> exn + 'a" where
  \<comment> \<open>\<^verbatim>\<open>xs[i]\<close>: an index from \<open>-len\<close> to \<open>-1\<close> counts from the end; anything
     outside \<open>-len\<close> to \<open>len - 1\<close> raises\<close>
  "list_getitem xs i =
     (if 0 \<le> i \<and> i < int (length xs) then Inr (xs ! nat i)
      else if - int (length xs) \<le> i \<and> i < 0 then Inr (xs ! nat (int (length xs) + i))
      else Inl (IndexError ''list index out of range''))"

definition repr_str :: "string \<Rightarrow> string" where
  \<comment> \<open>\<^verbatim>\<open>repr\<close> of a key without quotes or escapes in it, as the three keys read are.\<close>
  "repr_str k = [CHR 0x27] @ k @ [CHR 0x27]"

definition dict_getitem :: "(string \<times> 'v) list \<Rightarrow> string \<Rightarrow> exn + 'v" where
  \<comment> \<open>\<^verbatim>\<open>d[k]\<close>: a missing key raises.\<close>
  "dict_getitem d k = (case map_of d k of None \<Rightarrow> Inl (KeyError (repr_str k)) | Some v \<Rightarrow> Inr v)"

definition dict_get :: "(string \<times> 'v) list \<Rightarrow> string \<Rightarrow> 'v \<Rightarrow> 'v" where
  \<comment> \<open>\<^verbatim>\<open>d.get(k, default)\<close>\<close>
  "dict_get d k dflt = (case map_of d k of None \<Rightarrow> dflt | Some v \<Rightarrow> v)"

subsection \<open>Strings\<close>

definition startswith :: "string \<Rightarrow> string \<Rightarrow> bool" where
  "startswith s p = (take (length p) s = p)"

text \<open>\<^verbatim>\<open>s.split(sep)\<close> cuts at the leftmost occurrences of the separator, which do not
  overlap: after a match its remaining characters are skipped (\<open>skip\<close> counts them).
  \<open>acc\<close> is the current piece, reversed.\<close>

fun split_go :: "string \<Rightarrow> nat \<Rightarrow> string \<Rightarrow> string \<Rightarrow> string list" where
  "split_go sep skip acc [] = [rev acc]"
| "split_go sep (Suc k) acc (c # cs) = split_go sep k acc cs"
| "split_go sep 0 acc (c # cs) =
     (if startswith (c # cs) sep then rev acc # split_go sep (length sep - 1) [] cs
      else split_go sep 0 (c # acc) cs)"

definition split :: "string \<Rightarrow> string \<Rightarrow> exn + string list" where
  "split s sep = (if sep = [] then Inl (ValueError ''empty separator'')
                  else Inr (split_go sep 0 [] s))"

definition replace_char :: "char \<Rightarrow> char \<Rightarrow> string \<Rightarrow> string" where
  \<comment> \<open>\<^verbatim>\<open>s.replace(a, b)\<close> for one-character \<open>a\<close> and \<open>b\<close>\<close>
  "replace_char a b s = map (\<lambda>c. if c = a then b else c) s"

definition lower_char :: "char \<Rightarrow> char" where
  \<comment> \<open>the code points below 256 that \<^verbatim>\<open>str.lower\<close> changes: A-Z and the Latin-1 capitals\<close>
  "lower_char c =
     (let n = (of_char c :: nat)
      in if (65 \<le> n \<and> n \<le> 90) \<or> (192 \<le> n \<and> n \<le> 222 \<and> n \<noteq> 215)
         then char_of (n + 32) else c)"

definition lower :: "string \<Rightarrow> string" where
  "lower s = map lower_char s"

fun contains :: "string \<Rightarrow> string \<Rightarrow> bool" where
  \<comment> \<open>\<^verbatim>\<open>sub in s\<close>\<close>
  "contains sub [] = (sub = [])"
| "contains sub (c # cs) = (startswith (c # cs) sub \<or> contains sub cs)"

section \<open>The tables of the program\<close>

definition class_names :: "string list" where
  "class_names =
    [''Apple__Apple_scab'', ''Apple__Black_rot'', ''Apple__Cedar_apple_rust'', ''Apple__healthy'',
     ''Blueberry__healthy'', ''Cherry__Powdery_mildew'', ''Cherry__healthy'',
     ''Corn__Cercospora_leaf_spot'', ''Corn__Common_rust'', ''Corn__Northern_Leaf_Blight'',
     ''Corn__healthy'', ''Grape__Black_rot'', ''Grape__Esca'', ''Grape__Leaf_blight'',
     ''Grape__healthy'', ''Orange__Huanglongbing'', ''Peach__Bacterial_spot'', ''Peach__healthy'',
     ''Pepper__Bacterial_spot'', ''Pepper__healthy'', ''Potato__Early_blight'', ''Potato__Late_blight'',
     ''Potato__healthy'', ''Raspberry__healthy'', ''Soybean__healthy'', ''Squash__Powdery_mildew'',
     ''Strawberry__Leaf_scorch'', ''Strawberry__healthy'', ''Tomato__Bacterial_spot'',
     ''Tomato__Early_blight'', ''Tomato__Late_blight'', ''Tomato__Leaf_Mold'',
     ''Tomato__Septoria_leaf_spot'', ''Tomato__Spider_mites'', ''Tomato__Target_Spot'',
     ''Tomato__Yellow_Leaf_Curl_Virus'', ''Tomato__Mosaic_virus'', ''Tomato__healthy'']"

type_synonym info = "(string \<times> string) list"

definition disease_info :: "(string \<times> info) list" where
  "disease_info =
    [(''Apple scab'',
      [(''description'', ''Fungal disease causing olive-green velvety spots on leaves and fruits''),
       (''prevention'', ''Use resistant varieties, ensure good air circulation, apply fungicide sprays''),
       (''treatment'', ''Apply Captan or Mancozeb fungicide, prune infected areas'')]),
     (''Black rot'',
      [(''description'', ''Fungal disease causing black circular lesions on fruits and leaves''),
       (''prevention'', ''Remove infected plant debris, ensure proper spacing, avoid overhead watering''),
       (''treatment'', ''Apply copper-based fungicides, remove infected fruits immediately'')]),
     (''Late blight'',
      [(''description'', ''Devastating fungal disease causing water-soaked spots and plant death''),
       (''prevention'', ''Use resistant varieties, avoid overhead irrigation, ensure good drainage''),
       (''treatment'', ''Apply Metalaxyl or copper-based fungicides, destroy infected plants'')]),
     (''Early blight'',
      [(''description'', ''Fungal disease causing brown concentric rings on older leaves''),
       (''prevention'', ''Rotate crops, avoid overhead watering, maintain plant spacing''),
       (''treatment'', ''Apply Chlorothalonil or Mancozeb fungicide sprays'')]),
     (''Powdery mildew'',
      [(''description'', ''Fungal disease causing white powdery coating on leaves''),
       (''prevention'', ''Ensure good air circulation, avoid overhead watering, plant in sunny locations''),
       (''treatment'', ''Apply sulfur-based fungicides or neem oil'')])]"

definition default_info :: "string \<Rightarrow> string \<Rightarrow> info" where
  \<comment> \<open>the second argument of \<^verbatim>\<open>disease_info.get\<close>, lines 79 to 83\<close>
  "default_info disease_name plant_name =
    [(''description'', disease_name @ '' affecting '' @ plant_name),
     (''prevention'', ''Maintain good plant hygiene, use resistant varieties, ensure proper spacing''),
     (''treatment'', ''Consult agricultural extension services for specific treatment recommendations'')]"

section \<open>The prediction, from the class index on (lines 31 to 98)\<close>

definition severity_of :: "string \<Rightarrow> string" where
  "severity_of disease_name = (if contains ''blight'' (lower disease_name) then ''High'' else ''Medium'')"

definition exn_bind :: "exn + 'a \<Rightarrow> ('a \<Rightarrow> exn + 'b) \<Rightarrow> exn + 'b" where
  \<comment> \<open>sequencing inside the \<^verbatim>\<open>try\<close> block: the first exception ends the block\<close>
  "exn_bind m f = (case m of Inl e \<Rightarrow> Inl e | Inr v \<Rightarrow> f v)"

definition make_result :: "int \<Rightarrow> string \<Rightarrow> string \<Rightarrow> exn + pydict" where
  \<comment> \<open>lines 79 to 98: the advisory lookup, the confidence and the result dictionary\<close>
  "make_result result_index plant_name disease_name =
     (let info = dict_get disease_info disease_name (default_info disease_name plant_name);
          confidence = 85 + (result_index mod 15)
      in exn_bind (dict_getitem info ''description'') (\<lambda>description.
         exn_bind (dict_getitem info ''prevention'') (\<lambda>prevention.
         exn_bind (dict_getitem info ''treatment'') (\<lambda>treatment.
         Inr [(''success'', JBool True),
              (''plant'', JStr plant_name),
              (''disease'', JStr disease_name),
              (''confidence'', JInt confidence),
              (''description'', JStr description),
              (''prevention'', JStr prevention),
              (''treatment'', JStr treatment),
              (''severity'', JStr (severity_of disease_name))]))))"

definition class_parts :: "int \<Rightarrow> exn + string \<times> string" where
  \<comment> \<open>lines 45 to 47: \<open>plant_name\<close> and \<open>disease_name\<close> of the class at the index\<close>
  "class_parts result_index =
     exn_bind (list_getitem class_names result_index) (\<lambda>predicted_class.
     exn_bind (split predicted_class ''__'') (\<lambda>parts0.
     exn_bind (list_getitem parts0 0) (\<lambda>plant_name.
     exn_bind (split predicted_class ''__'') (\<lambda>parts1.
     exn_bind (list_getitem parts1 1) (\<lambda>disease_raw.
     Inr (plant_name, replace_char CHR ''_'' CHR '' '' disease_raw))))))"

definition predict_index :: "int \<Rightarrow> exn + pydict" where
  "predict_index result_index =
     exn_bind (class_parts result_index) (\<lambda>(plant_name, disease_name).
       make_result result_index plant_name disease_name)"

section \<open>Decoding the argument (line 11)\<close>

text \<open>
  \<^verbatim>\<open>base64.b64decode(image_data)\<close> is called with its defaults, so \<^verbatim>\<open>validate\<close> is
  false: the standard library encodes the \<^verbatim>\<open>str\<close> as ASCII (a \<^verbatim>\<open>ValueError\<close> when
  it cannot) and hands the bytes to \<^verbatim>\<open>binascii.a2b_base64\<close> in its lenient mode,
  modelled here after CPython 3.11. The bytes of an ASCII string are its characters.
\<close>

fun str_nat :: "nat \<Rightarrow> string" where
  "str_nat n = (if n < 10 then [char_of (48 + n)]
                else str_nat (n div 10) @ [char_of (48 + n mod 10)])"

declare str_nat.simps [simp del]

definition str_int :: "int \<Rightarrow> string" where
  "str_int i = (if i < 0 then CHR ''-'' # str_nat (nat (- i)) else str_nat (nat i))"

definition table_a2b_base64 :: "char \<Rightarrow> byte option" where
  \<comment> \<open>the value of a character of the alphabet A-Z a-z 0-9 + /\<close>
  "table_a2b_base64 c =
     (let n = (of_char c :: nat)
      in if 65 \<le> n \<and> n \<le> 90 then Some (of_nat (n - 65))
         else if 97 \<le> n \<and> n \<le> 122 then Some (of_nat (n - 71))
         else if 48 \<le> n \<and> n \<le> 57 then Some (of_nat (n + 4))
         else if n = 43 then Some 62
         else if n = 47 then Some 63
         else None)"

fun a2b_loop :: "nat \<Rightarrow> byte \<Rightarrow> nat \<Rightarrow> byte list \<Rightarrow> string \<Rightarrow> exn + byte list" where
  "a2b_loop quad_pos leftchar pads out [] =
     (if quad_pos \<noteq> 0 then
        (if quad_pos = 1 then
           Inl (BinasciiError (''Invalid base64-encoded string: number of data characters (''
                  @ str_nat (length out div 3 * 4 + 1)
                  @ '') cannot be 1 more than a multiple of 4''))
         else Inl (BinasciiError ''Incorrect padding''))
      else Inr out)"
| "a2b_loop quad_pos leftchar pads out (c # cs) =
     (if c = CHR ''='' then
        (if quad_pos \<ge> 2 then
           (if quad_pos + (pads + 1) \<ge> 4 then Inr out
            else a2b_loop quad_pos leftchar (pads + 1) out cs)
         else a2b_loop quad_pos leftchar pads out cs)
      else
        (case table_a2b_base64 c of
           None \<Rightarrow> a2b_loop quad_pos leftchar pads out cs
         | Some this_ch \<Rightarrow>
            (if quad_pos = 0 then a2b_loop 1 this_ch 0 out cs
             else if quad_pos = 1 then
               a2b_loop 2 (this_ch AND 0x0f) 0 (out @ [push_bit 2 leftchar OR drop_bit 4 this_ch]) cs
             else if quad_pos = 2 then
               a2b_loop 3 (this_ch AND 0x03) 0 (out @ [push_bit 4 leftchar OR drop_bit 2 this_ch]) cs
             else a2b_loop 0 0 0 (out @ [push_bit 6 leftchar OR this_ch]) cs)))"

definition a2b_base64 :: "string \<Rightarrow> exn + byte list" where
  "a2b_base64 s = a2b_loop 0 0 0 [] s"

definition is_ascii :: "char \<Rightarrow> bool" where
  "is_ascii c = ((of_char c :: nat) < 128)"

definition b64decode :: "string \<Rightarrow> exn + byte list" where
  "b64decode s =
     (if list_all is_ascii s then a2b_base64 s
      else Inl (ValueError ''string argument should contain only ASCII characters''))"

section \<open>The prediction (lines 8 to 104)\<close>

text \<open>
  Two things the function calls are not code of the program and are parameters of the
  model. \<open>mean_text\<close> stands for lines 12 to 20 and the \<^verbatim>\<open>str(input_arr.mean())\<close> of
  line 29: Pillow opens the bytes, resizes to 128 by 128, converts to RGB, NumPy divides
  by 255 and takes the mean; the outcome is the exception raised on the way or the
  decimal text of the mean. \<open>str_hash\<close> is the interpreter's \<^verbatim>\<open>hash\<close> on strings,
  one function for the lifetime of a process.
\<close>

record env =
  mean_text :: "byte list \<Rightarrow> exn + string"
  str_hash :: "string \<Rightarrow> int"

definition result_index_of :: "env \<Rightarrow> string \<Rightarrow> int" where
  \<comment> \<open>line 29; Python's \<^verbatim>\<open>%\<close> rounds towards minus infinity, as \<open>mod\<close> does\<close>
  "result_index_of E m = str_hash E m mod 38"

definition try_body :: "env \<Rightarrow> string \<Rightarrow> exn + pydict" where
  \<comment> \<open>the body of the \<^verbatim>\<open>try\<close>, lines 10 to 98\<close>
  "try_body E image_data =
     exn_bind (b64decode image_data) (\<lambda>image_bytes.
     exn_bind (mean_text E image_bytes) (\<lambda>m.
     predict_index (result_index_of E m)))"

definition failure :: "exn \<Rightarrow> pydict" where
  \<comment> \<open>the dictionary of the handler, lines 101 to 104\<close>
  "failure e = [(''success'', JBool False),
                (''error'', JStr (''Disease detection failed: '' @ str_exn e))]"

definition model_prediction :: "env \<Rightarrow> string \<Rightarrow> pydict" where
  "model_prediction E image_data =
     (case try_body E image_data of Inr result \<Rightarrow> result | Inl e \<Rightarrow> failure e)"

section \<open>The command line (lines 106 to 112)\<close>

definition hex_digit :: "nat \<Rightarrow> char" where
  "hex_digit d = (if d < 10 then char_of (48 + d) else char_of (87 + d))"

definition json_escape :: "char \<Rightarrow> string" where
  \<comment> \<open>\<^verbatim>\<open>json.dumps\<close> with \<^verbatim>\<open>ensure_ascii\<close>: everything outside space to tilde is escaped\<close>
  "json_escape c =
     (let n = (of_char c :: nat)
      in if n = 34 then [CHR 0x5C, CHR 0x22]
         else if n = 92 then [CHR 0x5C, CHR 0x5C]
         else if n = 10 then [CHR 0x5C, CHR ''n'']
         else if n = 13 then [CHR 0x5C, CHR ''r'']
         else if n = 9 then [CHR 0x5C, CHR ''t'']
         else if n = 8 then [CHR 0x5C, CHR ''b'']
         else if n = 12 then [CHR 0x5C, CHR ''f'']
         else if n < 32 \<or> 126 < n then
           [CHR 0x5C, CHR ''u'', CHR ''0'', CHR ''0'', hex_digit (n div 16), hex_digit (n mod 16)]
         else [c])"

definition json_str :: "string \<Rightarrow> string" where
  "json_str s = [CHR 0x22] @ concat (map json_escape s) @ [CHR 0x22]"

fun json_value :: "jvalue \<Rightarrow> string" where
  "json_value (JBool b) = (if b then ''true'' else ''false'')"
| "json_value (JInt i) = str_int i"
| "json_value (JStr s) = json_str s"

fun join :: "string \<Rightarrow> string list \<Rightarrow> string" where
  "join sep [] = []"
| "join sep [x] = x"
| "join sep (x # y # ys) = x @ sep @ join sep (y # ys)"

definition json_dumps :: "pydict \<Rightarrow> string" where
  "json_dumps d =
     ''{'' @ join '', '' (map (\<lambda>(k, v). json_str k @ '': '' @ json_value v) d) @ ''}''"

text \<open>What a run of the script does: the lines printed, the exit status of the
  interpreter, and the arguments \<open>model_prediction\<close> was called with.\<close>

record run =
  printed :: "string list"
  exit_status :: int
  predict_calls :: "string list"

definition main :: "env \<Rightarrow> string list \<Rightarrow> run" where
  "main E argv =
     (if length argv > 1 then
        (let image_data = argv ! 1; result = model_prediction E image_data
         in \<lparr>printed = [json_dumps result], exit_status = 0, predict_calls = [image_data]\<rparr>)
      else
        \<lparr>printed = [json_dumps [(''success'', JBool False), (''error'', JStr ''No image data provided'')]],
         exit_status = 0, predict_calls = []\<rparr>)"

section \<open>The interpreter's string hash\<close>

text \<open>
  CPython's \<^verbatim>\<open>hash\<close> of a \<^verbatim>\<open>str\<close> (3.11 and later) is SipHash-1-3 of the string's
  bytes, keyed with a 128-bit secret that the interpreter draws when it starts: at
  random by default, from the environment variable \<^verbatim>\<open>PYTHONHASHSEED\<close> when it is set.
  The names are those of \<^verbatim>\<open>Python/pyhash.c\<close>.
\<close>

type_synonym u64 = "64 word"

definition ROTATE :: "u64 \<Rightarrow> nat \<Rightarrow> u64" where
  "ROTATE x b = push_bit b x OR drop_bit (64 - b) x"

definition HALF_ROUND :: "u64 \<times> u64 \<times> u64 \<times> u64 \<Rightarrow> nat \<Rightarrow> nat \<Rightarrow> u64 \<times> u64 \<times> u64 \<times> u64" where
  "HALF_ROUND v s t =
     (case v of (a, b, c, d) \<Rightarrow>
        (let a1 = a + b; c1 = c + d;
             b1 = ROTATE b s XOR a1;
             d1 = ROTATE d t XOR c1;
             a2 = ROTATE a1 32
         in (a2, b1, c1, d1)))"

definition SINGLE_ROUND :: "u64 \<times> u64 \<times> u64 \<times> u64 \<Rightarrow> u64 \<times> u64 \<times> u64 \<times> u64" where
  "SINGLE_ROUND v =
     (case v of (v0, v1, v2, v3) \<Rightarrow>
        (case HALF_ROUND (v0, v1, v2, v3) 13 16 of (v0a, v1a, v2a, v3a) \<Rightarrow>
           (case HALF_ROUND (v2a, v1a, v0a, v3a) 17 21 of (v2b, v1b, v0b, v3b) \<Rightarrow>
              (v0b, v1b, v2b, v3b))))"

fun le64 :: "byte list \<Rightarrow> u64" where
  \<comment> \<open>up to eight bytes read as a little-endian number\<close>
  "le64 [] = 0"
| "le64 (b # bs) = ucast b OR push_bit 8 (le64 bs)"

fun sip_blocks :: "u64 \<times> u64 \<times> u64 \<times> u64 \<Rightarrow> byte list \<Rightarrow> (u64 \<times> u64 \<times> u64 \<times> u64) \<times> byte list" where
  \<comment> \<open>the \<^verbatim>\<open>while (src_sz >= 8)\<close> loop; returns the state and the bytes left over\<close>
  "sip_blocks v src =
     (if length src \<ge> 8 then
        (case v of (v0, v1, v2, v3) \<Rightarrow>
           (let mi = le64 (take 8 src) in
            case SINGLE_ROUND (v0, v1, v2, v3 XOR mi) of (w0, w1, w2, w3) \<Rightarrow>
              sip_blocks (w0 XOR mi, w1, w2, w3) (drop 8 src)))
      else (v, src))"

declare sip_blocks.simps [simp del]

definition siphash13 :: "u64 \<Rightarrow> u64 \<Rightarrow> byte list \<Rightarrow> u64" where
  "siphash13 k0 k1 src =
     (let b0 = push_bit 56 (of_nat (length src) :: u64);
          v = (k0 XOR 0x736f6d6570736575, k1 XOR 0x646f72616e646f6d,
               k0 XOR 0x6c7967656e657261, k1 XOR 0x7465646279746573)
      in case sip_blocks v src of ((v0, v1, v2, v3), rest) \<Rightarrow>
         (let b = b0 OR le64 rest in
          case SINGLE_ROUND (v0, v1, v2, v3 XOR b) of (w0, w1, w2, w3) \<Rightarrow>
          case SINGLE_ROUND (SINGLE_ROUND (SINGLE_ROUND (w0 XOR b, w1, w2 XOR 0xff, w3))) of
            (x0, x1, x2, x3) \<Rightarrow> (x0 XOR x1) XOR (x2 XOR x3)))"

definition Py_HashBytes :: "u64 \<times> u64 \<Rightarrow> byte list \<Rightarrow> int" where
  "Py_HashBytes secret src =
     (if src = [] then 0
      else (let x = sint (siphash13 (fst secret) (snd secret) src)
            in if x = - 1 then - 2 else x))"

definition unicode_hash :: "u64 \<times> u64 \<Rightarrow> string \<Rightarrow> int" where
  \<comment> \<open>a string of code points below 256 is stored one byte per character\<close>
  "unicode_hash secret s = Py_HashBytes secret (map (\<lambda>c. of_nat (of_char c)) s)"

definition secret_seed0 :: "u64 \<times> u64" where
  \<comment> \<open>\<^verbatim>\<open>PYTHONHASHSEED=0\<close>: the secret is all zero\<close>
  "secret_seed0 = (0, 0)"

definition secret_seed1 :: "u64 \<times> u64" where
  \<comment> \<open>\<^verbatim>\<open>PYTHONHASHSEED=1\<close>: the first sixteen bytes that CPython's generator gives for
     the seed 1; the default random secret can take this value too\<close>
  "secret_seed1 = (0xaed66ce184be2329, 0xebe9bbf1f1499052)"

definition secret_seed8 :: "u64 \<times> u64" where
  \<comment> \<open>\<^verbatim>\<open>PYTHONHASHSEED=8\<close>\<close>
  "secret_seed8 = (0xa3f1cbeb7f370a40, 0x01ba2b4d253e73cf)"

definition secret_seed30 :: "u64 \<times> u64" where
  \<comment> \<open>\<^verbatim>\<open>PYTHONHASHSEED=30\<close>\<close>
  "secret_seed30 = (0x136b3f54706bbb88, 0xffde1fddee881ac6)"

definition secret_seed41 :: "u64 \<times> u64" where
  \<comment> \<open>\<^verbatim>\<open>PYTHONHASHSEED=41\<close>\<close>
  "secret_seed41 = (0x4b28f988680594ac, 0xfe701824d22ded41)"

section \<open>One image\<close>

text \<open>
  A PNG file of one black pixel, and its base64 text. On this file the imaging steps
  succeed: every value of the resized RGB array is 0, the mean of the normalised array
  is \<^verbatim>\<open>0.0\<close> and its text is \<^verbatim>\<open>'0.0'\<close>. On bytes that are no image, such as three
  zero bytes, \<^verbatim>\<open>Image.open\<close> raises \<^verbatim>\<open>UnidentifiedImageError\<close>, whose text ends with
  the \<^verbatim>\<open>repr\<close> of the \<^verbatim>\<open>BytesIO\<close> object of line 12, and so with the address of that
  object in this call.

  \<open>imaging_at\<close> is the imaging parameter on these two kinds of input, for a call whose
  \<^verbatim>\<open>BytesIO\<close> object has the given \<^verbatim>\<open>repr\<close>. It is used only where a statement needs a
  concrete environment, and only on the black pixel and on bytes that are no image; it
  does not describe Pillow on other readable images.
\<close>

definition black_pixel_png :: "byte list" where
  "black_pixel_png =
    [137, 80, 78, 71, 13, 10, 26, 10, 0, 0, 0, 13, 73, 72, 68, 82, 0, 0, 0, 1, 0, 0, 0, 1,
     8, 2, 0, 0, 0, 144, 119, 83, 222, 0, 0, 0, 12, 73, 68, 65, 84, 120, 218, 99, 96, 96,
     96, 0, 0, 0, 4, 0, 1, 200, 234, 235, 249, 0, 0, 0, 0, 73, 69, 78, 68, 174, 66, 96, 130]"

definition black_pixel_b64 :: string where
  "black_pixel_b64 =
    ''iVBORw0KGgoAAAANSUhEUgAAAAEAAAABCAIAAACQd1PeAAAADElEQVR42mNgYGAAAAAEAAHI6uv5AAAAAElFTkSuQmCC''"

definition imaging_at :: "string \<Rightarrow> byte list \<Rightarrow> exn + string" where
  "imaging_at fp_repr bs =
     (if bs = black_pixel_png then Inr ''0.0''
      else Inl (ImageError (''cannot identify image file '' @ fp_repr)))"

definition black_pixel_imaging :: "byte list \<Rightarrow> exn + string" where
  \<comment> \<open>a call whose \<^verbatim>\<open>BytesIO\<close> object lies at the address shown\<close>
  "black_pixel_imaging = imaging_at ''<_io.BytesIO object at 0x7f2b8c0d4a90>''"

definition call_env :: "u64 \<times> u64 \<Rightarrow> string \<Rightarrow> env" where
  \<comment> \<open>a call in a process with the given hash secret, its \<^verbatim>\<open>BytesIO\<close> object having
     the given \<^verbatim>\<open>repr\<close>\<close>
  "call_env secret fp_repr = \<lparr>mean_text = imaging_at fp_repr, str_hash = unicode_hash secret\<rparr>"

definition process_env :: "u64 \<times> u64 \<Rightarrow> env" where
  \<comment> \<open>a process whose interpreter drew the given hash secret\<close>
  "process_env secret = \<lparr>mean_text = black_pixel_imaging, str_hash = unicode_hash secret\<rparr>"

section \<open>Standard base64, as the specification names it\<close>

text \<open>
  The specification speaks of ``valid standard base64''. This predicate follows those
  words (RFC 4648, section 4), not the program: groups of four characters of the
  alphabet, the last group ending in at most two \<^verbatim>\<open>=\<close>; nothing else anywhere.
\<close>

definition in_alphabet :: "char \<Rightarrow> bool" where
  "in_alphabet c = (table_a2b_base64 c \<noteq> None)"

definition standard_base64 :: "string \<Rightarrow> bool" where
  "standard_base64 s =
     (let body = takeWhile (\<lambda>c. c \<noteq> CHR ''='') s;
          pad = dropWhile (\<lambda>c. c \<noteq> CHR ''='') s
      in length s mod 4 = 0 \<and> list_all in_alphabet body
         \<and> length pad \<le> 2 \<and> list_all (\<lambda>c. c = CHR ''='') pad)"

definition significant :: "char \<Rightarrow> bool" where
  \<comment> \<open>the characters the lenient decoder looks at: the alphabet and the pad\<close>
  "significant c = (c = CHR ''='' \<or> in_alphabet c)"

section \<open>The class table and the advisory lookup\<close>

lemma length_class_names: "length class_names = 38"
  by (simp add: class_names_def)

lemma list_getitem_in_range:
  "0 \<le> i \<Longrightarrow> i < int (length xs) \<Longrightarrow> list_getitem xs i = Inr (xs ! nat i)"
  by (simp add: list_getitem_def)

lemma split_class_names:
  "list_all (\<lambda>c. \<exists>p d. split c ''__'' = Inr [p, d] \<and> p @ ''__'' @ d = c \<and> CHR '' '' \<notin> set d) class_names"
  by (simp add: class_names_def split_def startswith_def)

lemma replace_char_back:
  "b \<notin> set s \<Longrightarrow> replace_char b a (replace_char a b s) = s"
  by (induction s) (auto simp: replace_char_def)

lemma class_parts_in_range:
  assumes "0 \<le> i" "i < 38"
  shows "\<exists>p d. class_parts i = Inr (p, replace_char CHR ''_'' CHR '' '' d)
            \<and> p @ ''__'' @ d = class_names ! nat i \<and> CHR '' '' \<notin> set d"
proof -
  let ?c = "class_names ! nat i"
  have n: "nat i < length class_names"
    using assms by (simp add: length_class_names)
  have g: "list_getitem class_names i = Inr ?c"
    using assms by (simp add: list_getitem_in_range length_class_names)
  from split_class_names n
  obtain p d where s: "split ?c ''__'' = Inr [p, d]" and r: "p @ ''__'' @ d = ?c"
    and sp: "CHR '' '' \<notin> set d"
    unfolding list_all_length by blast
  have "class_parts i = Inr (p, replace_char CHR ''_'' CHR '' '' d)"
    by (simp add: class_parts_def exn_bind_def g s list_getitem_in_range)
  with r sp show ?thesis by blast
qed

lemma info_lookup:
  "dict_get disease_info d (default_info d p) =
     (if d = ''Apple scab'' then
        [(''description'', ''Fungal disease causing olive-green velvety spots on leaves and fruits''),
         (''prevention'', ''Use resistant varieties, ensure good air circulation, apply fungicide sprays''),
         (''treatment'', ''Apply Captan or Mancozeb fungicide, prune infected areas'')]
      else if d = ''Black rot'' then
        [(''description'', ''Fungal disease causing black circular lesions on fruits and leaves''),
         (''prevention'', ''Remove infected plant debris, ensure proper spacing, avoid overhead watering''),
         (''treatment'', ''Apply copper-based fungicides, remove infected fruits immediately'')]
      else if d = ''Late blight'' then
        [(''description'', ''Devastating fungal disease causing water-soaked spots and plant death''),
         (''prevention'', ''Use resistant varieties, avoid overhead irrigation, ensure good drainage''),
         (''treatment'', ''Apply Metalaxyl or copper-based fungicides, destroy infected plants'')]
      else if d = ''Early blight'' then
        [(''description'', ''Fungal disease causing brown concentric rings on older leaves''),
         (''prevention'', ''Rotate crops, avoid overhead watering, maintain plant spacing''),
         (''treatment'', ''Apply Chlorothalonil or Mancozeb fungicide sprays'')]
      else if d = ''Powdery mildew'' then
        [(''description'', ''Fungal disease causing white powdery coating on leaves''),
         (''prevention'', ''Ensure good air circulation, avoid overhead watering, plant in sunny locations''),
         (''treatment'', ''Apply sulfur-based fungicides or neem oil'')]
      else
        [(''description'', d @ '' affecting '' @ p),
         (''prevention'', ''Maintain good plant hygiene, use resistant varieties, ensure proper spacing''),
         (''treatment'', ''Consult agricultural extension services for specific treatment recommendations'')])"
  by (simp add: dict_get_def disease_info_def default_info_def)

lemma info_has_three_keys:
  "\<exists>ds pv t. dict_get disease_info d (default_info d p) =
     [(''description'', ds), (''prevention'', pv), (''treatment'', t)]"
  unfolding info_lookup by simp

lemma make_result_from_info:
  assumes "dict_get disease_info d (default_info d p) =
             [(''description'', ds), (''prevention'', pv), (''treatment'', t)]"
  shows "make_result i p d =
     Inr [(''success'', JBool True), (''plant'', JStr p), (''disease'', JStr d),
          (''confidence'', JInt (85 + i mod 15)), (''description'', JStr ds),
          (''prevention'', JStr pv), (''treatment'', JStr t),
          (''severity'', JStr (severity_of d))]"
  by (simp add: make_result_def assms dict_getitem_def exn_bind_def)


section \<open>The shape of a prediction\<close>

lemma result_index_range: "0 \<le> result_index_of E m \<and> result_index_of E m < 38"
  by (simp add: result_index_of_def)

lemma predict_index_in_range:
  assumes "0 \<le> i" "i < 38"
  shows "\<exists>p d ds pv t. class_parts i = Inr (p, d)
           \<and> dict_get disease_info d (default_info d p) =
               [(''description'', ds), (''prevention'', pv), (''treatment'', t)]
           \<and> predict_index i =
               Inr [(''success'', JBool True), (''plant'', JStr p), (''disease'', JStr d),
                    (''confidence'', JInt (85 + i mod 15)), (''description'', JStr ds),
                    (''prevention'', JStr pv), (''treatment'', JStr t),
                    (''severity'', JStr (severity_of d))]"
proof -
  from class_parts_in_range [OF assms] obtain p d where cp: "class_parts i = Inr (p, d)"
    by blast
  from info_has_three_keys [of d p] obtain ds pv t
    where info: "dict_get disease_info d (default_info d p) =
                   [(''description'', ds), (''prevention'', pv), (''treatment'', t)]"
    by blast
  have "predict_index i = make_result i p d"
    by (simp add: predict_index_def exn_bind_def cp)
  with make_result_from_info [OF info, of i] cp info show ?thesis
    by simp
qed

lemma try_body_decode_error: "b64decode x = Inl e \<Longrightarrow> try_body E x = Inl e"
  by (simp add: try_body_def exn_bind_def)

lemma try_body_image_error:
  "b64decode x = Inr bs \<Longrightarrow> mean_text E bs = Inl e \<Longrightarrow> try_body E x = Inl e"
  by (simp add: try_body_def exn_bind_def)

lemma try_body_reaches_index:
  "b64decode x = Inr bs \<Longrightarrow> mean_text E bs = Inr m \<Longrightarrow>
     try_body E x = predict_index (result_index_of E m)"
  by (simp add: try_body_def exn_bind_def)

lemma try_body_cases:
  "(\<exists>e. try_body E x = Inl e \<and> model_prediction E x = failure e)
   \<or> (\<exists>i. 0 \<le> i \<and> i < 38 \<and> try_body E x = predict_index i
          \<and> model_prediction E x = (case predict_index i of Inr r \<Rightarrow> r | Inl e \<Rightarrow> failure e))"
proof (cases "b64decode x")
  case (Inl e)
  then show ?thesis
    by (simp add: model_prediction_def try_body_decode_error)
next
  case (Inr bs)
  show ?thesis
  proof (cases "mean_text E bs")
    case (Inl e)
    with Inr show ?thesis
      by (simp add: model_prediction_def try_body_image_error)
  next
    case m: (Inr m)
    have "try_body E x = predict_index (result_index_of E m)"
      using Inr m by (rule try_body_reaches_index)
    with result_index_range [of E m] show ?thesis
      by (auto simp: model_prediction_def)
  qed
qed

lemma success_shape:
  assumes "map_of (model_prediction E x) ''success'' = Some (JBool True)"
  shows "\<exists>i p d ds pv t. 0 \<le> i \<and> i < 38 \<and> class_parts i = Inr (p, d)
           \<and> dict_get disease_info d (default_info d p) =
               [(''description'', ds), (''prevention'', pv), (''treatment'', t)]
           \<and> model_prediction E x =
               [(''success'', JBool True), (''plant'', JStr p), (''disease'', JStr d),
                (''confidence'', JInt (85 + i mod 15)), (''description'', JStr ds),
                (''prevention'', JStr pv), (''treatment'', JStr t),
                (''severity'', JStr (severity_of d))]"
proof -
  from try_body_cases [of E x] show ?thesis
  proof
    assume "\<exists>e. try_body E x = Inl e \<and> model_prediction E x = failure e"
    with assms show ?thesis by (auto simp: failure_def)
  next
    assume "\<exists>i. 0 \<le> i \<and> i < 38 \<and> try_body E x = predict_index i
          \<and> model_prediction E x = (case predict_index i of Inr r \<Rightarrow> r | Inl e \<Rightarrow> failure e)"
    then obtain i where i: "0 \<le> i" "i < 38"
      and mp: "model_prediction E x = (case predict_index i of Inr r \<Rightarrow> r | Inl e \<Rightarrow> failure e)"
      by blast
    from predict_index_in_range [OF i] mp i show ?thesis
      by (metis sum.case(2))
  qed
qed

section \<open>Runs on concrete inputs\<close>

lemmas char_eval = char_of_def bit_0

lemmas sip_defs = unicode_hash_def Py_HashBytes_def siphash13_def sip_blocks.simps
  SINGLE_ROUND_def HALF_ROUND_def ROTATE_def

lemma decode_black_pixel: "b64decode black_pixel_b64 = Inr black_pixel_png"
  by (simp add: b64decode_def a2b_base64_def is_ascii_def table_a2b_base64_def
      black_pixel_b64_def black_pixel_png_def)

lemma hash_seed0: "unicode_hash secret_seed0 ''0.0'' = 3564881105292235877"
  by (simp add: sip_defs secret_seed0_def)

lemma hash_seed1: "unicode_hash secret_seed1 ''0.0'' = - 5979438298654614027"
  by (simp add: sip_defs secret_seed1_def)

lemma hash_seed8: "unicode_hash secret_seed8 ''0.0'' = - 6263317972829281015"
  by (simp add: sip_defs secret_seed8_def)

lemma hash_seed30: "unicode_hash secret_seed30 ''0.0'' = - 4034424764690927343"
  by (simp add: sip_defs secret_seed30_def)

lemma hash_seed41: "unicode_hash secret_seed41 ''0.0'' = 2807763772592944737"
  by (simp add: sip_defs secret_seed41_def)

lemma predict_index_25:
  "predict_index 25 =
     Inr [(''success'', JBool True), (''plant'', JStr ''Squash''),
          (''disease'', JStr ''Powdery mildew''), (''confidence'', JInt 95),
          (''description'', JStr ''Fungal disease causing white powdery coating on leaves''),
          (''prevention'', JStr ''Ensure good air circulation, avoid overhead watering, plant in sunny locations''),
          (''treatment'', JStr ''Apply sulfur-based fungicides or neem oil''),
          (''severity'', JStr ''Medium'')]"
  by (simp add: predict_index_def class_parts_def exn_bind_def list_getitem_def class_names_def
      split_def startswith_def replace_char_def make_result_def dict_get_def dict_getitem_def
      disease_info_def default_info_def severity_of_def lower_def lower_char_def)

lemma model_prediction_reaches_index:
  "b64decode x = Inr bs \<Longrightarrow> mean_text E bs = Inr m \<Longrightarrow>
     model_prediction E x =
       (case predict_index (result_index_of E m) of Inr r \<Rightarrow> r | Inl e \<Rightarrow> failure e)"
  by (simp add: model_prediction_def try_body_reaches_index)

lemma black_pixel_seed0:
  "model_prediction (process_env secret_seed0) black_pixel_b64 =
     [(''success'', JBool True), (''plant'', JStr ''Squash''),
      (''disease'', JStr ''Powdery mildew''), (''confidence'', JInt 95),
      (''description'', JStr ''Fungal disease causing white powdery coating on leaves''),
      (''prevention'', JStr ''Ensure good air circulation, avoid overhead watering, plant in sunny locations''),
      (''treatment'', JStr ''Apply sulfur-based fungicides or neem oil''),
      (''severity'', JStr ''Medium'')]"
proof -
  have m: "mean_text (process_env secret_seed0) black_pixel_png = Inr ''0.0''"
    by (simp add: process_env_def black_pixel_imaging_def imaging_at_def)
  have i: "result_index_of (process_env secret_seed0) ''0.0'' = 25"
    by (simp add: result_index_of_def process_env_def hash_seed0)
  show ?thesis
    by (simp add: model_prediction_reaches_index [OF decode_black_pixel m] i predict_index_25)
qed


lemma predict_index_19:
  "predict_index 19 =
     Inr [(''success'', JBool True), (''plant'', JStr ''Pepper''),
          (''disease'', JStr ''healthy''), (''confidence'', JInt 89),
          (''description'', JStr ''healthy affecting Pepper''),
          (''prevention'', JStr ''Maintain good plant hygiene, use resistant varieties, ensure proper spacing''),
          (''treatment'', JStr ''Consult agricultural extension services for specific treatment recommendations''),
          (''severity'', JStr ''Medium'')]"
  by (simp add: predict_index_def class_parts_def exn_bind_def list_getitem_def class_names_def
      split_def startswith_def replace_char_def make_result_def dict_get_def dict_getitem_def
      disease_info_def default_info_def severity_of_def lower_def lower_char_def)

lemma predict_index_21:
  "predict_index 21 =
     Inr [(''success'', JBool True), (''plant'', JStr ''Potato''),
          (''disease'', JStr ''Late blight''), (''confidence'', JInt 91),
          (''description'', JStr ''Devastating fungal disease causing water-soaked spots and plant death''),
          (''prevention'', JStr ''Use resistant varieties, avoid overhead irrigation, ensure good drainage''),
          (''treatment'', JStr ''Apply Metalaxyl or copper-based fungicides, destroy infected plants''),
          (''severity'', JStr ''High'')]"
  by (simp add: predict_index_def class_parts_def exn_bind_def list_getitem_def class_names_def
      split_def startswith_def replace_char_def make_result_def dict_get_def dict_getitem_def
      disease_info_def default_info_def severity_of_def lower_def lower_char_def)

lemma black_pixel_mean: "mean_text (process_env secret) black_pixel_png = Inr ''0.0''"
  by (simp add: process_env_def black_pixel_imaging_def imaging_at_def)

lemma black_pixel_seed1:
  "model_prediction (process_env secret_seed1) black_pixel_b64 =
     [(''success'', JBool True), (''plant'', JStr ''Pepper''),
      (''disease'', JStr ''healthy''), (''confidence'', JInt 89),
      (''description'', JStr ''healthy affecting Pepper''),
      (''prevention'', JStr ''Maintain good plant hygiene, use resistant varieties, ensure proper spacing''),
      (''treatment'', JStr ''Consult agricultural extension services for specific treatment recommendations''),
      (''severity'', JStr ''Medium'')]"
proof -
  have i: "result_index_of (process_env secret_seed1) ''0.0'' = 19"
    by (simp add: result_index_of_def process_env_def hash_seed1)
  show ?thesis
    by (simp add: model_prediction_reaches_index [OF decode_black_pixel black_pixel_mean]
        i predict_index_19)
qed

lemma black_pixel_seed8:
  "model_prediction (process_env secret_seed8) black_pixel_b64 =
     [(''success'', JBool True), (''plant'', JStr ''Potato''),
      (''disease'', JStr ''Late blight''), (''confidence'', JInt 91),
      (''description'', JStr ''Devastating fungal disease causing water-soaked spots and plant death''),
      (''prevention'', JStr ''Use resistant varieties, avoid overhead irrigation, ensure good drainage''),
      (''treatment'', JStr ''Apply Metalaxyl or copper-based fungicides, destroy infected plants''),
      (''severity'', JStr ''High'')]"
proof -
  have i: "result_index_of (process_env secret_seed8) ''0.0'' = 21"
    by (simp add: result_index_of_def process_env_def hash_seed8)
  show ?thesis
    by (simp add: model_prediction_reaches_index [OF decode_black_pixel black_pixel_mean]
        i predict_index_21)
qed

lemma decode_A:
  "b64decode ''A'' = Inl (BinasciiError ''Invalid base64-encoded string: number of data characters (1) cannot be 1 more than a multiple of 4'')"
  by (simp add: b64decode_def a2b_base64_def is_ascii_def table_a2b_base64_def str_nat.simps char_eval)

lemma decode_AAAA: "b64decode ''AAAA'' = Inr [0, 0, 0]"
  by (simp add: b64decode_def a2b_base64_def is_ascii_def table_a2b_base64_def)

lemma predict_index_9:
  "predict_index 9 =
     Inr [(''success'', JBool True), (''plant'', JStr ''Corn''),
          (''disease'', JStr ''Northern Leaf Blight''), (''confidence'', JInt 94),
          (''description'', JStr ''Northern Leaf Blight affecting Corn''),
          (''prevention'', JStr ''Maintain good plant hygiene, use resistant varieties, ensure proper spacing''),
          (''treatment'', JStr ''Consult agricultural extension services for specific treatment recommendations''),
          (''severity'', JStr ''High'')]"
  by (simp add: predict_index_def class_parts_def exn_bind_def list_getitem_def class_names_def
      split_def startswith_def replace_char_def make_result_def dict_get_def dict_getitem_def
      disease_info_def default_info_def severity_of_def lower_def lower_char_def char_eval)

lemma black_pixel_seed30:
  "model_prediction (process_env secret_seed30) black_pixel_b64 =
     [(''success'', JBool True), (''plant'', JStr ''Corn''),
      (''disease'', JStr ''Northern Leaf Blight''), (''confidence'', JInt 94),
      (''description'', JStr ''Northern Leaf Blight affecting Corn''),
      (''prevention'', JStr ''Maintain good plant hygiene, use resistant varieties, ensure proper spacing''),
      (''treatment'', JStr ''Consult agricultural extension services for specific treatment recommendations''),
      (''severity'', JStr ''High'')]"
proof -
  have i: "result_index_of (process_env secret_seed30) ''0.0'' = 9"
    by (simp add: result_index_of_def process_env_def hash_seed30)
  show ?thesis
    by (simp add: model_prediction_reaches_index [OF decode_black_pixel black_pixel_mean]
        i predict_index_9)
qed

lemma black_pixel_seed41:
  "model_prediction (process_env secret_seed41) black_pixel_b64 =
     [(''success'', JBool True), (''plant'', JStr ''Potato''),
      (''disease'', JStr ''Late blight''), (''confidence'', JInt 91),
      (''description'', JStr ''Devastating fungal disease causing water-soaked spots and plant death''),
      (''prevention'', JStr ''Use resistant varieties, avoid overhead irrigation, ensure good drainage''),
      (''treatment'', JStr ''Apply Metalaxyl or copper-based fungicides, destroy infected plants''),
      (''severity'', JStr ''High'')]"
proof -
  have i: "result_index_of (process_env secret_seed41) ''0.0'' = 21"
    by (simp add: result_index_of_def process_env_def hash_seed41)
  show ?thesis
    by (simp add: model_prediction_reaches_index [OF decode_black_pixel black_pixel_mean]
        i predict_index_21)
qed

lemma distinct_class_names: "distinct class_names"
  by (simp add: class_names_def)

lemma replace_char_inj:
  "b \<notin> set s \<Longrightarrow> b \<notin> set s' \<Longrightarrow> replace_char a b s = replace_char a b s' \<Longrightarrow> s = s'"
  by (metis replace_char_back)

lemma predict_index_inj:
  assumes i: "0 \<le> i" "i < 38" and j: "0 \<le> j" "j < 38"
    and eq: "predict_index i = predict_index j"
  shows "i = j"
proof -
  from class_parts_in_range [OF i] obtain p d
    where cp: "class_parts i = Inr (p, replace_char CHR ''_'' CHR '' '' d)"
      and r: "p @ ''__'' @ d = class_names ! nat i" and sp: "CHR '' '' \<notin> set d"
    by blast
  from class_parts_in_range [OF j] obtain p' d'
    where cp': "class_parts j = Inr (p', replace_char CHR ''_'' CHR '' '' d')"
      and r': "p' @ ''__'' @ d' = class_names ! nat j" and sp': "CHR '' '' \<notin> set d'"
    by blast
  from predict_index_in_range [OF i] cp obtain ds pv t where
    pi: "predict_index i =
       Inr [(''success'', JBool True), (''plant'', JStr p),
            (''disease'', JStr (replace_char CHR ''_'' CHR '' '' d)),
            (''confidence'', JInt (85 + i mod 15)), (''description'', JStr ds),
            (''prevention'', JStr pv), (''treatment'', JStr t),
            (''severity'', JStr (severity_of (replace_char CHR ''_'' CHR '' '' d)))]"
    by auto
  from predict_index_in_range [OF j] cp' obtain ds' pv' t' where
    pj: "predict_index j =
       Inr [(''success'', JBool True), (''plant'', JStr p'),
            (''disease'', JStr (replace_char CHR ''_'' CHR '' '' d')),
            (''confidence'', JInt (85 + j mod 15)), (''description'', JStr ds'),
            (''prevention'', JStr pv'), (''treatment'', JStr t'),
            (''severity'', JStr (severity_of (replace_char CHR ''_'' CHR '' '' d')))]"
    by auto
  from eq pi pj have "p = p'"
    and "replace_char CHR ''_'' CHR '' '' d = replace_char CHR ''_'' CHR '' '' d'"
    by simp_all
  with sp sp' have "p = p'" "d = d'"
    by (auto dest: replace_char_inj)
  with r r' have "class_names ! nat i = class_names ! nat j"
    by simp
  moreover have "nat i < length class_names" "nat j < length class_names"
    using i j by (simp_all add: length_class_names)
  ultimately have "nat i = nat j"
    using distinct_class_names by (simp add: nth_eq_iff_index_eq)
  with i j show ?thesis by simp
qed

section \<open>The lenient decoder\<close>

lemma a2b_loop_filter:
  "a2b_loop q l p out (filter significant s) = a2b_loop q l p out s"
  by (induction s arbitrary: q l p out)
    (auto simp: significant_def in_alphabet_def split: option.splits)

lemma b64decode_filter:
  "list_all is_ascii s \<Longrightarrow> b64decode (filter significant s) = b64decode s"
  by (simp add: b64decode_def a2b_base64_def a2b_loop_filter list_all_iff)

lemma a2b_loop_no_pad:
  "CHR ''='' \<notin> set s \<Longrightarrow> q < 4 \<Longrightarrow>
     (\<exists>e. a2b_loop q l p out s = Inl e) \<longleftrightarrow> (q + length (filter in_alphabet s)) mod 4 \<noteq> 0"
proof (induction s arbitrary: q l p out)
  case Nil
  then show ?case by auto
next
  case (Cons c cs)
  then have c: "c \<noteq> CHR ''=''" and cs: "CHR ''='' \<notin> set cs"
    by auto
  show ?case
  proof (cases "table_a2b_base64 c")
    case None
    with c Cons.IH [OF cs Cons.prems(2)] show ?thesis
      by (simp add: in_alphabet_def)
  next
    case (Some v)
    from Cons.prems(2) consider "q = 0" | "q = 1" | "q = 2" | "q = 3"
      by linarith
    then show ?thesis
    proof cases
      case 1
      with c Some Cons.IH [OF cs, of 1] show ?thesis
        by (simp add: in_alphabet_def)
    next
      case 2
      with c Some Cons.IH [OF cs, of 2] show ?thesis
        by (simp add: in_alphabet_def)
    next
      case 3
      with c Some Cons.IH [OF cs, of 3] show ?thesis
        by (simp add: in_alphabet_def)
    next
      case 4
      with c Some Cons.IH [OF cs, of 0] show ?thesis
        by (simp add: in_alphabet_def)
    qed
  qed
qed

lemma decode_not_base64:
  "b64decode ''not-base64!!'' =
     Inl (BinasciiError ''Invalid base64-encoded string: number of data characters (9) cannot be 1 more than a multiple of 4'')"
  by (simp add: b64decode_def a2b_base64_def is_ascii_def table_a2b_base64_def str_nat.simps char_eval)

lemma not_standard_AAAA_bang: "\<not> standard_base64 ''AAAA!''"
  by (simp add: standard_base64_def)

lemma decode_black_pixel_bang: "b64decode (black_pixel_b64 @ ''!'') = Inr black_pixel_png"
proof -
  have "filter significant (black_pixel_b64 @ ''!'') = black_pixel_b64"
    by (simp add: black_pixel_b64_def significant_def in_alphabet_def table_a2b_base64_def)
  moreover have "list_all is_ascii (black_pixel_b64 @ ''!'')"
    by (simp add: black_pixel_b64_def is_ascii_def)
  ultimately show ?thesis
    using b64decode_filter [of "black_pixel_b64 @ ''!''"] decode_black_pixel by simp
qed

lemma decode_AAAA_bang: "b64decode ''AAAA!'' = Inr [0, 0, 0]"
  by (simp add: b64decode_def a2b_base64_def is_ascii_def table_a2b_base64_def)

section \<open>The claims\<close>

text \<open>
  C1, as the program has it. Two runs on one input return the same result in exactly
  three cases: the base64 decoding raises (its outcome depends on the input alone); an
  imaging step raises in both runs and the two exceptions have the same text; the image
  is read in both runs and the two class indices, the interpreter's string hash of the
  mean's text modulo 38, are equal. That hash is keyed with a secret drawn when the
  process starts, so for one mean text the indices are equal within one process or
  under one fixed \<^verbatim>\<open>PYTHONHASHSEED\<close>, and not always between two processes. The text of
  an imaging error is not fixed by the input either: for unreadable bytes it contains
  the address of the \<^verbatim>\<open>BytesIO\<close> object of the call.
\<close>

theorem same_result_iff_same_index:
  "model_prediction E1 x = model_prediction E2 x \<longleftrightarrow>
     (case b64decode x of
        Inl e \<Rightarrow> True
      | Inr bs \<Rightarrow>
         (case mean_text E1 bs of
            Inl e1 \<Rightarrow>
              (case mean_text E2 bs of
                 Inl e2 \<Rightarrow> str_exn e1 = str_exn e2
               | Inr m2 \<Rightarrow> False)
          | Inr m1 \<Rightarrow>
              (case mean_text E2 bs of
                 Inl e2 \<Rightarrow> False
               | Inr m2 \<Rightarrow> str_hash E1 m1 mod 38 = str_hash E2 m2 mod 38)))"
proof (cases "b64decode x")
  case (Inl e)
  then show ?thesis
    by (simp add: model_prediction_def try_body_decode_error)
next
  case bs: (Inr bs)
  have fails: "model_prediction E x = failure e" if "mean_text E bs = Inl e" for E e
    using bs that by (simp add: model_prediction_def try_body_image_error)
  have succeeds: "model_prediction E x \<noteq> failure e
      \<and> Inr (model_prediction E x) = predict_index (result_index_of E m)"
    if m: "mean_text E bs = Inr m" for E m e
  proof -
    have r: "0 \<le> result_index_of E m" "result_index_of E m < 38"
      using result_index_range [of E m] by simp_all
    from predict_index_in_range [OF r] obtain p d ds pv t where
      "predict_index (result_index_of E m) =
         Inr [(''success'', JBool True), (''plant'', JStr p), (''disease'', JStr d),
              (''confidence'', JInt (85 + result_index_of E m mod 15)),
              (''description'', JStr ds), (''prevention'', JStr pv),
              (''treatment'', JStr t), (''severity'', JStr (severity_of d))]"
      by blast
    then show ?thesis
      by (simp add: model_prediction_reaches_index [OF bs m] failure_def)
  qed
  show ?thesis
  proof (cases "mean_text E1 bs")
    case e1: (Inl e1)
    show ?thesis
    proof (cases "mean_text E2 bs")
      case (Inl e2)
      with bs e1 show ?thesis
        by (simp add: fails [OF e1] fails [OF Inl] failure_def)
    next
      case (Inr m2)
      with bs e1 succeeds [OF Inr, of e1] show ?thesis
        by (auto simp: fails [OF e1])
    qed
  next
    case m1: (Inr m1)
    show ?thesis
    proof (cases "mean_text E2 bs")
      case (Inl e2)
      with bs m1 succeeds [OF m1, of e2] show ?thesis
        by (auto simp: fails [OF Inl])
    next
      case m2: (Inr m2)
      let ?i = "result_index_of E1 m1" and ?j = "result_index_of E2 m2"
      have ri: "0 \<le> ?i" "?i < 38" and rj: "0 \<le> ?j" "?j < 38"
        using result_index_range [of E1 m1] result_index_range [of E2 m2] by simp_all
      have "model_prediction E1 x = model_prediction E2 x \<longleftrightarrow> predict_index ?i = predict_index ?j"
        using succeeds [OF m1] succeeds [OF m2] by (metis sum.inject(2))
      also have "\<dots> \<longleftrightarrow> ?i = ?j"
        using predict_index_inj [OF ri rj] by auto
      finally show ?thesis
        using bs m1 m2 by (simp add: result_index_of_def)
    qed
  qed
qed

theorem same_result_iff_same_index_witness:
  "model_prediction (call_env secret_seed8 ''<_io.BytesIO object at 0x7f2b8c0d4a90>'') black_pixel_b64
     = model_prediction (call_env secret_seed41 ''<_io.BytesIO object at 0x7f11d3e5b6d0>'') black_pixel_b64
   \<and> model_prediction (call_env secret_seed0 ''<_io.BytesIO object at 0x7f2b8c0d4a90>'') ''AAAA''
     \<noteq> model_prediction (call_env secret_seed0 ''<_io.BytesIO object at 0x7f11d3e5b6d0>'') ''AAAA''
   \<and> model_prediction (call_env secret_seed0 ''<_io.BytesIO object at 0x7f2b8c0d4a90>'') ''A''
     = model_prediction (call_env secret_seed1 ''<_io.BytesIO object at 0x7f11d3e5b6d0>'') ''A''"
proof -
  have z: "[0, 0, 0] \<noteq> black_pixel_png"
    by (simp add: black_pixel_png_def)
  show ?thesis
    unfolding same_result_iff_same_index
    by (simp add: decode_black_pixel decode_AAAA decode_A call_env_def imaging_at_def z
        hash_seed8 hash_seed41)
qed

text \<open>
  C1 as stated, that two runs on identical input always give identical results, fails
  between processes: on the base64 text of a one-pixel black PNG the interpreter started
  with \<^verbatim>\<open>PYTHONHASHSEED=0\<close> answers Squash, Powdery mildew, 95 and the one started with
  \<^verbatim>\<open>PYTHONHASHSEED=1\<close> answers Pepper, healthy, 89.
\<close>

theorem hash_secret_changes_result:
  "model_prediction (process_env secret_seed0) black_pixel_b64
     \<noteq> model_prediction (process_env secret_seed1) black_pixel_b64"
  by (simp add: black_pixel_seed0 black_pixel_seed1)

text \<open>
  C2. Whichever step of the prediction raises, \<open>model_prediction\<close> returns exactly
  the failure record whose \<open>error\<close> is \<^verbatim>\<open>Disease detection failed: \<close> followed by the
  text of the exception: when the base64 decoding raises, and when an imaging step
  raises. When neither raises, the hashing and the lookups raise nothing and the
  result is the complete success record of eight entries, never a part of it. The
  function returns a dictionary on every input.
\<close>

theorem exceptions_become_failure_record:
  "(\<forall>e. b64decode x = Inl e \<longrightarrow>
      model_prediction E x =
        [(''success'', JBool False),
         (''error'', JStr (''Disease detection failed: '' @ str_exn e))])
   \<and> (\<forall>bs e. b64decode x = Inr bs \<longrightarrow> mean_text E bs = Inl e \<longrightarrow>
      model_prediction E x =
        [(''success'', JBool False),
         (''error'', JStr (''Disease detection failed: '' @ str_exn e))])
   \<and> (\<forall>bs m. b64decode x = Inr bs \<longrightarrow> mean_text E bs = Inr m \<longrightarrow>
      (\<exists>p d c ds pv t s. model_prediction E x =
        [(''success'', JBool True), (''plant'', JStr p), (''disease'', JStr d),
         (''confidence'', JInt c), (''description'', JStr ds),
         (''prevention'', JStr pv), (''treatment'', JStr t), (''severity'', JStr s)]))"
proof (intro conjI allI impI)
  fix e assume "b64decode x = Inl e"
  then show "model_prediction E x =
    [(''success'', JBool False), (''error'', JStr (''Disease detection failed: '' @ str_exn e))]"
    by (simp add: model_prediction_def try_body_decode_error failure_def)
next
  fix bs e assume "b64decode x = Inr bs" "mean_text E bs = Inl e"
  then show "model_prediction E x =
    [(''success'', JBool False), (''error'', JStr (''Disease detection failed: '' @ str_exn e))]"
    by (simp add: model_prediction_def try_body_image_error failure_def)
next
  fix bs m assume a: "b64decode x = Inr bs" "mean_text E bs = Inr m"
  let ?i = "result_index_of E m"
  have r: "0 \<le> ?i" "?i < 38"
    using result_index_range [of E m] by simp_all
  from predict_index_in_range [OF r] obtain p d ds pv t where
    "predict_index ?i =
       Inr [(''success'', JBool True), (''plant'', JStr p), (''disease'', JStr d),
            (''confidence'', JInt (85 + ?i mod 15)), (''description'', JStr ds),
            (''prevention'', JStr pv), (''treatment'', JStr t),
            (''severity'', JStr (severity_of d))]"
    by blast
  then have "model_prediction E x =
       [(''success'', JBool True), (''plant'', JStr p), (''disease'', JStr d),
        (''confidence'', JInt (85 + ?i mod 15)), (''description'', JStr ds),
        (''prevention'', JStr pv), (''treatment'', JStr t),
        (''severity'', JStr (severity_of d))]"
    by (simp add: model_prediction_reaches_index [OF a])
  then show "\<exists>p d c ds pv t s. model_prediction E x =
        [(''success'', JBool True), (''plant'', JStr p), (''disease'', JStr d),
         (''confidence'', JInt c), (''description'', JStr ds),
         (''prevention'', JStr pv), (''treatment'', JStr t), (''severity'', JStr s)]"
    by blast
qed

theorem exceptions_become_failure_record_witness:
  "model_prediction (process_env secret_seed0) ''A'' =
     [(''success'', JBool False),
      (''error'', JStr ''Disease detection failed: Invalid base64-encoded string: number of data characters (1) cannot be 1 more than a multiple of 4'')]
   \<and> model_prediction (process_env secret_seed0) ''AAAA'' =
     [(''success'', JBool False),
      (''error'', JStr ''Disease detection failed: cannot identify image file <_io.BytesIO object at 0x7f2b8c0d4a90>'')]
   \<and> (\<exists>p d c ds pv t s. model_prediction (process_env secret_seed0) black_pixel_b64 =
        [(''success'', JBool True), (''plant'', JStr p), (''disease'', JStr d),
         (''confidence'', JInt c), (''description'', JStr ds),
         (''prevention'', JStr pv), (''treatment'', JStr t), (''severity'', JStr s)])"
proof -
  have img: "mean_text (process_env secret_seed0) [0, 0, 0] =
      Inl (ImageError ''cannot identify image file <_io.BytesIO object at 0x7f2b8c0d4a90>'')"
    by (simp add: process_env_def black_pixel_imaging_def imaging_at_def black_pixel_png_def)
  show ?thesis
    using exceptions_become_failure_record [of "''A''" "process_env secret_seed0"]
      exceptions_become_failure_record [of "''AAAA''" "process_env secret_seed0"]
      exceptions_become_failure_record [of black_pixel_b64 "process_env secret_seed0"]
    by (simp add: decode_A decode_AAAA decode_black_pixel img black_pixel_mean)
qed

text \<open>
  C3. For every \<open>result_index\<close> from 0 to 37, the plant name (the part of the class
  name before the separator \<^verbatim>\<open>__\<close>) followed by \<^verbatim>\<open>__\<close> and by the disease name
  with its spaces turned back into underscores is \<^verbatim>\<open>class_names[result_index]\<close>
  exactly.
\<close>

theorem class_name_reconstructed:
  "0 \<le> i \<Longrightarrow> i < 38 \<Longrightarrow>
     \<exists>plant disease. class_parts i = Inr (plant, disease)
        \<and> list_getitem class_names i =
            Inr (plant @ ''__'' @ replace_char CHR '' '' CHR ''_'' disease)"
proof -
  assume i: "0 \<le> i" "i < 38"
  from class_parts_in_range [OF i] obtain p d
    where cp: "class_parts i = Inr (p, replace_char CHR ''_'' CHR '' '' d)"
      and r: "p @ ''__'' @ d = class_names ! nat i" and sp: "CHR '' '' \<notin> set d"
    by blast
  have "list_getitem class_names i = Inr (class_names ! nat i)"
    using i by (simp add: list_getitem_in_range length_class_names)
  with cp r replace_char_back [OF sp] show ?thesis
    by simp
qed

theorem class_name_reconstructed_witness:
  "(0::int) \<le> 9 \<and> (9::int) < 38
   \<and> (\<exists>plant disease. class_parts 9 = Inr (plant, disease)
        \<and> list_getitem class_names 9 =
            Inr (plant @ ''__'' @ replace_char CHR '' '' CHR ''_'' disease))"
  using class_name_reconstructed [of 9] by simp

text \<open>
  C4. Whenever the input reaches the class selection, the confidence that
  \<open>model_prediction\<close> returns is \<open>85 + result_index mod 15\<close> for the \<open>result_index\<close> of
  line 29, a number from 85 to 99; and each of the 38 values of \<open>result_index\<close> gives
  a prediction whose confidence is that number.
\<close>

theorem confidence_formula:
  "(\<forall>bs m. b64decode x = Inr bs \<longrightarrow> mean_text E bs = Inr m \<longrightarrow>
      map_of (model_prediction E x) ''confidence''
        = Some (JInt (85 + result_index_of E m mod 15))
      \<and> 85 \<le> 85 + result_index_of E m mod 15 \<and> 85 + result_index_of E m mod 15 \<le> 99)
   \<and> (\<forall>i. 0 \<le> i \<longrightarrow> i < 38 \<longrightarrow>
      (\<exists>r. predict_index i = Inr r
         \<and> map_of r ''confidence'' = Some (JInt (85 + i mod 15))
         \<and> 85 \<le> 85 + i mod 15 \<and> 85 + i mod 15 \<le> 99))"
proof (intro conjI allI impI)
  fix i :: int
  assume i: "0 \<le> i" "i < 38"
  from predict_index_in_range [OF i] obtain r
    where "predict_index i = Inr r" "map_of r ''confidence'' = Some (JInt (85 + i mod 15))"
    by auto
  moreover have "0 \<le> i mod 15 \<and> i mod 15 < 15" by simp
  ultimately show "\<exists>r. predict_index i = Inr r
         \<and> map_of r ''confidence'' = Some (JInt (85 + i mod 15))
         \<and> 85 \<le> 85 + i mod 15 \<and> 85 + i mod 15 \<le> 99"
    by auto
next
  fix bs m
  assume a: "b64decode x = Inr bs" "mean_text E bs = Inr m"
  let ?i = "result_index_of E m"
  have r: "0 \<le> ?i" "?i < 38"
    using result_index_range [of E m] by simp_all
  from predict_index_in_range [OF r] obtain res
    where "predict_index ?i = Inr res" "map_of res ''confidence'' = Some (JInt (85 + ?i mod 15))"
    by auto
  then show "map_of (model_prediction E x) ''confidence'' = Some (JInt (85 + ?i mod 15))"
    by (simp add: model_prediction_reaches_index [OF a])
  have "0 \<le> ?i mod 15 \<and> ?i mod 15 < 15" by simp
  then show "85 \<le> 85 + ?i mod 15" and "85 + ?i mod 15 \<le> 99"
    by simp_all
qed

theorem confidence_formula_witness:
  "b64decode black_pixel_b64 = Inr black_pixel_png
   \<and> mean_text (process_env secret_seed0) black_pixel_png = Inr ''0.0''
   \<and> result_index_of (process_env secret_seed0) ''0.0'' = 25
   \<and> map_of (model_prediction (process_env secret_seed0) black_pixel_b64) ''confidence''
        = Some (JInt 95)
   \<and> (0::int) \<le> 37 \<and> (37::int) < 38
   \<and> (\<exists>r. predict_index 37 = Inr r \<and> map_of r ''confidence'' = Some (JInt 92))"
proof -
  have i: "result_index_of (process_env secret_seed0) ''0.0'' = 25"
    by (simp add: result_index_of_def process_env_def hash_seed0)
  note c = confidence_formula [of black_pixel_b64 "process_env secret_seed0"]
  from c decode_black_pixel black_pixel_mean [of secret_seed0] i
  have a: "map_of (model_prediction (process_env secret_seed0) black_pixel_b64) ''confidence''
        = Some (JInt 95)"
    by simp
  from c have "(0::int) \<le> 37 \<longrightarrow> (37::int) < 38 \<longrightarrow>
      (\<exists>r. predict_index 37 = Inr r
         \<and> map_of r ''confidence'' = Some (JInt (85 + 37 mod 15))
         \<and> 85 \<le> 85 + (37::int) mod 15 \<and> 85 + (37::int) mod 15 \<le> 99)"
    by blast
  then have b: "\<exists>r. predict_index 37 = Inr r \<and> map_of r ''confidence'' = Some (JInt 92)"
    by simp
  from a b decode_black_pixel black_pixel_mean [of secret_seed0] i
  show ?thesis by simp
qed

text \<open>
  C5. In every successful prediction the severity is \<^verbatim>\<open>High\<close> exactly when the
  lowercase of the disease name contains \<^verbatim>\<open>blight\<close>, and \<^verbatim>\<open>Medium\<close> exactly when it
  does not.
\<close>

theorem severity_high_iff_blight:
  "map_of (model_prediction E x) ''success'' = Some (JBool True) \<Longrightarrow>
     \<exists>d. map_of (model_prediction E x) ''disease'' = Some (JStr d)
       \<and> (map_of (model_prediction E x) ''severity'' = Some (JStr ''High'')
            \<longleftrightarrow> contains ''blight'' (lower d))
       \<and> (map_of (model_prediction E x) ''severity'' = Some (JStr ''Medium'')
            \<longleftrightarrow> \<not> contains ''blight'' (lower d))"
proof -
  assume "map_of (model_prediction E x) ''success'' = Some (JBool True)"
  from success_shape [OF this] obtain i p d ds pv t where
    "model_prediction E x =
       [(''success'', JBool True), (''plant'', JStr p), (''disease'', JStr d),
        (''confidence'', JInt (85 + i mod 15)), (''description'', JStr ds),
        (''prevention'', JStr pv), (''treatment'', JStr t),
        (''severity'', JStr (severity_of d))]"
    by blast
  then show ?thesis
    by (simp add: severity_of_def)
qed

theorem severity_high_iff_blight_witness:
  "map_of (model_prediction (process_env secret_seed30) black_pixel_b64) ''success''
      = Some (JBool True)
   \<and> map_of (model_prediction (process_env secret_seed30) black_pixel_b64) ''disease''
      = Some (JStr ''Northern Leaf Blight'')
   \<and> contains ''blight'' (lower ''Northern Leaf Blight'')
   \<and> map_of (model_prediction (process_env secret_seed30) black_pixel_b64) ''severity''
      = Some (JStr ''High'')
   \<and> map_of (model_prediction (process_env secret_seed1) black_pixel_b64) ''success''
      = Some (JBool True)
   \<and> map_of (model_prediction (process_env secret_seed1) black_pixel_b64) ''disease''
      = Some (JStr ''healthy'')
   \<and> \<not> contains ''blight'' (lower ''healthy'')
   \<and> map_of (model_prediction (process_env secret_seed1) black_pixel_b64) ''severity''
      = Some (JStr ''Medium'')"
  using severity_high_iff_blight [of "process_env secret_seed30" black_pixel_b64]
    severity_high_iff_blight [of "process_env secret_seed1" black_pixel_b64]
  by (simp add: black_pixel_seed30 black_pixel_seed1 lower_def lower_char_def char_eval
      startswith_def)

text \<open>
  C6. In every successful prediction, a disease name that is exactly one of
  \<^verbatim>\<open>Apple scab\<close>, \<^verbatim>\<open>Black rot\<close>, \<^verbatim>\<open>Late blight\<close>, \<^verbatim>\<open>Early blight\<close>,
  \<^verbatim>\<open>Powdery mildew\<close> comes with the description, prevention and treatment written in
  the table for it; any other disease name comes with the description
  ``disease affecting plant'' and the two generic texts.
\<close>

theorem advisory_text:
  "map_of (model_prediction E x) ''success'' = Some (JBool True) \<Longrightarrow>
     \<exists>p d. map_of (model_prediction E x) ''plant'' = Some (JStr p)
       \<and> map_of (model_prediction E x) ''disease'' = Some (JStr d)
       \<and> [map_of (model_prediction E x) ''description'',
           map_of (model_prediction E x) ''prevention'',
           map_of (model_prediction E x) ''treatment''] =
          (if d = ''Apple scab'' then
             [Some (JStr ''Fungal disease causing olive-green velvety spots on leaves and fruits''),
              Some (JStr ''Use resistant varieties, ensure good air circulation, apply fungicide sprays''),
              Some (JStr ''Apply Captan or Mancozeb fungicide, prune infected areas'')]
           else if d = ''Black rot'' then
             [Some (JStr ''Fungal disease causing black circular lesions on fruits and leaves''),
              Some (JStr ''Remove infected plant debris, ensure proper spacing, avoid overhead watering''),
              Some (JStr ''Apply copper-based fungicides, remove infected fruits immediately'')]
           else if d = ''Late blight'' then
             [Some (JStr ''Devastating fungal disease causing water-soaked spots and plant death''),
              Some (JStr ''Use resistant varieties, avoid overhead irrigation, ensure good drainage''),
              Some (JStr ''Apply Metalaxyl or copper-based fungicides, destroy infected plants'')]
           else if d = ''Early blight'' then
             [Some (JStr ''Fungal disease causing brown concentric rings on older leaves''),
              Some (JStr ''Rotate crops, avoid overhead watering, maintain plant spacing''),
              Some (JStr ''Apply Chlorothalonil or Mancozeb fungicide sprays'')]
           else if d = ''Powdery mildew'' then
             [Some (JStr ''Fungal disease causing white powdery coating on leaves''),
              Some (JStr ''Ensure good air circulation, avoid overhead watering, plant in sunny locations''),
              Some (JStr ''Apply sulfur-based fungicides or neem oil'')]
           else
             [Some (JStr (d @ '' affecting '' @ p)),
              Some (JStr ''Maintain good plant hygiene, use resistant varieties, ensure proper spacing''),
              Some (JStr ''Consult agricultural extension services for specific treatment recommendations'')])"
proof -
  assume "map_of (model_prediction E x) ''success'' = Some (JBool True)"
  from success_shape [OF this] obtain i p d ds pv t where
    info: "dict_get disease_info d (default_info d p) =
             [(''description'', ds), (''prevention'', pv), (''treatment'', t)]"
    and mp: "model_prediction E x =
       [(''success'', JBool True), (''plant'', JStr p), (''disease'', JStr d),
        (''confidence'', JInt (85 + i mod 15)), (''description'', JStr ds),
        (''prevention'', JStr pv), (''treatment'', JStr t),
        (''severity'', JStr (severity_of d))]"
    by blast
  have "[Some (JStr ds), Some (JStr pv), Some (JStr t)] =
          map (\<lambda>k. map_option JStr (map_of (dict_get disease_info d (default_info d p)) k))
            [''description'', ''prevention'', ''treatment'']"
    by (simp add: info)
  also have "\<dots> = (if d = ''Apple scab'' then
             [Some (JStr ''Fungal disease causing olive-green velvety spots on leaves and fruits''),
              Some (JStr ''Use resistant varieties, ensure good air circulation, apply fungicide sprays''),
              Some (JStr ''Apply Captan or Mancozeb fungicide, prune infected areas'')]
           else if d = ''Black rot'' then
             [Some (JStr ''Fungal disease causing black circular lesions on fruits and leaves''),
              Some (JStr ''Remove infected plant debris, ensure proper spacing, avoid overhead watering''),
              Some (JStr ''Apply copper-based fungicides, remove infected fruits immediately'')]
           else if d = ''Late blight'' then
             [Some (JStr ''Devastating fungal disease causing water-soaked spots and plant death''),
              Some (JStr ''Use resistant varieties, avoid overhead irrigation, ensure good drainage''),
              Some (JStr ''Apply Metalaxyl or copper-based fungicides, destroy infected plants'')]
           else if d = ''Early blight'' then
             [Some (JStr ''Fungal disease causing brown concentric rings on older leaves''),
              Some (JStr ''Rotate crops, avoid overhead watering, maintain plant spacing''),
              Some (JStr ''Apply Chlorothalonil or Mancozeb fungicide sprays'')]
           else if d = ''Powdery mildew'' then
             [Some (JStr ''Fungal disease causing white powdery coating on leaves''),
              Some (JStr ''Ensure good air circulation, avoid overhead watering, plant in sunny locations''),
              Some (JStr ''Apply sulfur-based fungicides or neem oil'')]
           else
             [Some (JStr (d @ '' affecting '' @ p)),
              Some (JStr ''Maintain good plant hygiene, use resistant varieties, ensure proper spacing''),
              Some (JStr ''Consult agricultural extension services for specific treatment recommendations'')])"
    unfolding info_lookup by simp
  finally show ?thesis
    by (simp add: mp)
qed

theorem advisory_text_witness:
  "map_of (model_prediction (process_env secret_seed0) black_pixel_b64) ''success'' = Some (JBool True)
   \<and> map_of (model_prediction (process_env secret_seed0) black_pixel_b64) ''disease''
        = Some (JStr ''Powdery mildew'')
   \<and> map_of (model_prediction (process_env secret_seed0) black_pixel_b64) ''description''
        = Some (JStr ''Fungal disease causing white powdery coating on leaves'')
   \<and> map_of (model_prediction (process_env secret_seed1) black_pixel_b64) ''success'' = Some (JBool True)
   \<and> map_of (model_prediction (process_env secret_seed1) black_pixel_b64) ''disease''
        = Some (JStr ''healthy'')
   \<and> map_of (model_prediction (process_env secret_seed1) black_pixel_b64) ''description''
        = Some (JStr ''healthy affecting Pepper'')"
  using advisory_text [of "process_env secret_seed0" black_pixel_b64]
    advisory_text [of "process_env secret_seed1" black_pixel_b64]
  by (simp add: black_pixel_seed0 black_pixel_seed1)

text \<open>
  C7. Whatever the hash of the mean's text is, negative or not, \<open>result_index\<close> is
  at least 0 and below 38, so reading \<^verbatim>\<open>class_names[result_index]\<close> raises no \<^verbatim>\<open>IndexError\<close>, and
  none of the lookups that follow raises either.
\<close>

theorem result_index_in_bounds:
  "0 \<le> result_index_of E m \<and> result_index_of E m < 38
   \<and> (\<exists>c. list_getitem class_names (result_index_of E m) = Inr c)
   \<and> (\<exists>r. predict_index (result_index_of E m) = Inr r)"
proof -
  have r: "0 \<le> result_index_of E m" "result_index_of E m < 38"
    using result_index_range [of E m] by simp_all
  have "list_getitem class_names (result_index_of E m) = Inr (class_names ! nat (result_index_of E m))"
    using r by (simp add: list_getitem_in_range length_class_names)
  moreover from predict_index_in_range [OF r] have "\<exists>r. predict_index (result_index_of E m) = Inr r"
    by blast
  ultimately show ?thesis using r by blast
qed

theorem result_index_in_bounds_witness:
  "str_hash (process_env secret_seed1) ''0.0'' = - 5979438298654614027
   \<and> result_index_of (process_env secret_seed1) ''0.0'' = 19
   \<and> list_getitem class_names 19 = Inr ''Pepper__healthy''
   \<and> (\<exists>r. predict_index (result_index_of (process_env secret_seed1) ''0.0'') = Inr r)"
proof -
  have h: "str_hash (process_env secret_seed1) ''0.0'' = - 5979438298654614027"
    by (simp add: process_env_def hash_seed1)
  then have i: "result_index_of (process_env secret_seed1) ''0.0'' = 19"
    by (simp add: result_index_of_def)
  have c: "list_getitem class_names 19 = Inr ''Pepper__healthy''"
    by (simp add: list_getitem_def class_names_def)
  from result_index_in_bounds [of "process_env secret_seed1" "''0.0''"] h i c
  show ?thesis by simp
qed

text \<open>
  C8, as the program has it. Whenever the base64 decoding raises, \<open>model_prediction\<close>
  returns the failure record with the text of that exception. The decoding raises on
  every string with a character outside ASCII, and on every ASCII string without
  \<^verbatim>\<open>=\<close> whose characters of the alphabet are not a multiple of four in number; the
  literal \<^verbatim>\<open>not-base64!!\<close>, which is not standard base64, has nine and is rejected
  with the message shown.
\<close>

theorem decode_failure_gives_failure_record:
  "(\<forall>e. b64decode x = Inl e \<longrightarrow>
      model_prediction E x =
        [(''success'', JBool False),
         (''error'', JStr (''Disease detection failed: '' @ str_exn e))])
   \<and> (\<not> list_all is_ascii x \<longrightarrow>
      b64decode x = Inl (ValueError ''string argument should contain only ASCII characters''))
   \<and> (list_all is_ascii x \<and> CHR ''='' \<notin> set x \<and> length (filter in_alphabet x) mod 4 \<noteq> 0 \<longrightarrow>
      (\<exists>e. b64decode x = Inl e))
   \<and> \<not> standard_base64 ''not-base64!!''
   \<and> model_prediction E ''not-base64!!'' =
        [(''success'', JBool False),
         (''error'', JStr ''Disease detection failed: Invalid base64-encoded string: number of data characters (9) cannot be 1 more than a multiple of 4'')]"
proof (intro conjI allI impI)
  fix e assume "b64decode x = Inl e"
  then show "model_prediction E x =
    [(''success'', JBool False), (''error'', JStr (''Disease detection failed: '' @ str_exn e))]"
    by (simp add: model_prediction_def try_body_decode_error failure_def)
next
  assume "\<not> list_all is_ascii x"
  then show "b64decode x = Inl (ValueError ''string argument should contain only ASCII characters'')"
    by (simp add: b64decode_def)
next
  assume a: "list_all is_ascii x \<and> CHR ''='' \<notin> set x \<and> length (filter in_alphabet x) mod 4 \<noteq> 0"
  then have "\<exists>e. a2b_loop 0 0 0 [] x = Inl e"
    using a2b_loop_no_pad [of x 0 0 0 "[]"] by simp
  with a show "\<exists>e. b64decode x = Inl e"
    by (simp add: b64decode_def a2b_base64_def)
next
  show "\<not> standard_base64 ''not-base64!!''"
    by (simp add: standard_base64_def in_alphabet_def table_a2b_base64_def)
next
  show "model_prediction E ''not-base64!!'' =
        [(''success'', JBool False),
         (''error'', JStr ''Disease detection failed: Invalid base64-encoded string: number of data characters (9) cannot be 1 more than a multiple of 4'')]"
    by (simp add: model_prediction_def try_body_decode_error [OF decode_not_base64] failure_def)
qed

theorem decode_failure_gives_failure_record_witness:
  "b64decode ''abc'' = Inl (BinasciiError ''Incorrect padding'')
   \<and> model_prediction (process_env secret_seed0) ''abc'' =
        [(''success'', JBool False), (''error'', JStr ''Disease detection failed: Incorrect padding'')]
   \<and> \<not> list_all is_ascii [CHR 0xE9]
   \<and> model_prediction (process_env secret_seed0) [CHR 0xE9] =
        [(''success'', JBool False),
         (''error'', JStr ''Disease detection failed: string argument should contain only ASCII characters'')]
   \<and> list_all is_ascii ''not-base64!!'' \<and> CHR ''='' \<notin> set ''not-base64!!''
   \<and> length (filter in_alphabet ''not-base64!!'') mod 4 \<noteq> 0
   \<and> (\<exists>e. b64decode ''not-base64!!'' = Inl e)"
proof -
  have abc: "b64decode ''abc'' = Inl (BinasciiError ''Incorrect padding'')"
    by (simp add: b64decode_def a2b_base64_def is_ascii_def table_a2b_base64_def)
  have e9: "\<not> list_all is_ascii [CHR 0xE9]"
    by (simp add: is_ascii_def)
  have nb: "list_all is_ascii ''not-base64!!'' \<and> CHR ''='' \<notin> set ''not-base64!!''
      \<and> length (filter in_alphabet ''not-base64!!'') mod 4 \<noteq> 0"
    by (simp add: is_ascii_def in_alphabet_def table_a2b_base64_def)
  show ?thesis
    using decode_failure_gives_failure_record [of "''abc''" "process_env secret_seed0"]
      decode_failure_gives_failure_record [of "[CHR 0xE9]" "process_env secret_seed0"]
      decode_failure_gives_failure_record [of "''not-base64!!''" "process_env secret_seed0"]
      abc e9 nb
    by simp
qed

text \<open>
  C8 as stated, that every string that is not valid standard base64 makes the decoding
  fail and the prediction return a failure record, fails: the base64 text of the black
  pixel followed by \<^verbatim>\<open>!\<close> is not standard base64, decodes to the PNG file, and the
  prediction succeeds.
\<close>

theorem invalid_base64_accepted:
  "\<not> standard_base64 (black_pixel_b64 @ ''!'')
   \<and> b64decode (black_pixel_b64 @ ''!'') = Inr black_pixel_png
   \<and> map_of (model_prediction (process_env secret_seed0) (black_pixel_b64 @ ''!'')) ''success''
        = Some (JBool True)"
proof -
  have i: "result_index_of (process_env secret_seed0) ''0.0'' = 25"
    by (simp add: result_index_of_def process_env_def hash_seed0)
  have "\<not> standard_base64 (black_pixel_b64 @ ''!'')"
    by (simp add: standard_base64_def black_pixel_b64_def in_alphabet_def table_a2b_base64_def)
  moreover have "map_of (model_prediction (process_env secret_seed0) (black_pixel_b64 @ ''!'')) ''success''
        = Some (JBool True)"
    by (simp add: model_prediction_reaches_index [OF decode_black_pixel_bang black_pixel_mean]
        i predict_index_25)
  ultimately show ?thesis
    using decode_black_pixel_bang by simp
qed

text \<open>
  C9. Run without an image argument, the script prints exactly
  \<^verbatim>\<open>{"success": false, "error": "No image data provided"}\<close>, ends with status 0 and
  does not call \<open>model_prediction\<close>.
\<close>

theorem no_argument:
  \<open>length argv \<le> 1 \<Longrightarrow>
     main E argv =
       \<lparr>printed = [''{"success": false, "error": "No image data provided"}''],
        exit_status = 0, predict_calls = []\<rparr>\<close>
  by (simp add: main_def json_dumps_def json_str_def json_escape_def)

theorem no_argument_witness:
  \<open>length [''disease_detection.py''] \<le> 1
   \<and> main (process_env secret_seed0) [''disease_detection.py''] =
       \<lparr>printed = [''{"success": false, "error": "No image data provided"}''],
        exit_status = 0, predict_calls = []\<rparr>\<close>
  using no_argument [of "[''disease_detection.py'']" "process_env secret_seed0"]
  by simp

text \<open>
  C10. There are strings that are not valid standard base64 and that the decoding
  accepts, \<^verbatim>\<open>AAAA!\<close> for one. On an ASCII string the characters other than the
  alphabet and \<^verbatim>\<open>=\<close> are dropped before anything else happens: the decoded bytes
  and the whole prediction are those of the string without them, so the prediction
  succeeds whenever what remains decodes to a readable image.
\<close>

theorem lenient_decode:
  "\<not> standard_base64 ''AAAA!'' \<and> b64decode ''AAAA!'' = Inr [0, 0, 0]
   \<and> (list_all is_ascii s \<longrightarrow>
        b64decode s = b64decode (filter significant s)
        \<and> model_prediction E s = model_prediction E (filter significant s))"
proof -
  have "model_prediction E s = model_prediction E (filter significant s)"
    if "list_all is_ascii s"
    using b64decode_filter [OF that] by (simp add: model_prediction_def try_body_def)
  then show ?thesis
    using not_standard_AAAA_bang decode_AAAA_bang b64decode_filter [of s] by simp
qed

theorem lenient_decode_witness:
  "list_all is_ascii (black_pixel_b64 @ [CHR 0x0A])
   \<and> \<not> standard_base64 (black_pixel_b64 @ [CHR 0x0A])
   \<and> b64decode (black_pixel_b64 @ [CHR 0x0A]) = Inr black_pixel_png
   \<and> model_prediction (process_env secret_seed1) (black_pixel_b64 @ [CHR 0x0A]) =
       [(''success'', JBool True), (''plant'', JStr ''Pepper''),
        (''disease'', JStr ''healthy''), (''confidence'', JInt 89),
        (''description'', JStr ''healthy affecting Pepper''),
        (''prevention'', JStr ''Maintain good plant hygiene, use resistant varieties, ensure proper spacing''),
        (''treatment'', JStr ''Consult agricultural extension services for specific treatment recommendations''),
        (''severity'', JStr ''Medium'')]"
proof -
  have f: "filter significant (black_pixel_b64 @ [CHR 0x0A]) = black_pixel_b64"
    by (simp add: black_pixel_b64_def significant_def in_alphabet_def table_a2b_base64_def)
  have a: "list_all is_ascii (black_pixel_b64 @ [CHR 0x0A])"
    by (simp add: black_pixel_b64_def is_ascii_def)
  have n: "\<not> standard_base64 (black_pixel_b64 @ [CHR 0x0A])"
    by (simp add: standard_base64_def black_pixel_b64_def in_alphabet_def table_a2b_base64_def)
  from lenient_decode [of "black_pixel_b64 @ [CHR 0x0A]" "process_env secret_seed1"] a
  have "b64decode (black_pixel_b64 @ [CHR 0x0A]) = b64decode black_pixel_b64
      \<and> model_prediction (process_env secret_seed1) (black_pixel_b64 @ [CHR 0x0A])
          = model_prediction (process_env secret_seed1) black_pixel_b64"
    unfolding f by blast
  with a n show ?thesis
    by (simp only: decode_black_pixel black_pixel_seed1 simp_thms)
qed

end
